theory Spec2Isabelle
  imports Main "HOL-Library.Sublist"
begin

section \<open>beeget: exceptions, inputs and effects\<close>

text \<open>
  The script \<^verbatim>\<open>beeget.py\<close> downloads the latest Bee binary, starts it as a child
  process from a background thread, waits until port 1633 accepts a connection, fetches
  \<^verbatim>\<open>/bzz/{swarmhash}\<close> into a file and then signals the thread to stop the node.

  Every value that the script reads from outside (platform, HTTP responses, filesystem
  and socket results, the outcome of \<^verbatim>\<open>Popen\<close>) is a field of the record \<open>env\<close>;
  every effect that the script has (HTTP requests, connection attempts and sleeps, lines
  printed, writes to the stop flag, files written, thread start and join) is logged in the
  record \<open>world\<close>. A raised exception is the \<open>Inl\<close> of a sum.
\<close>

datatype exn =
    RuntimeError string   \<comment> \<open>\<^verbatim>\<open>RuntimeError(msg)\<close>, the only class caught by the CLI\<close>
  | OSError string        \<comment> \<open>an \<^verbatim>\<open>OSError\<close> of the filesystem or of the socket\<close>
  | PopenError string     \<comment> \<open>the \<^verbatim>\<open>OSError\<close> raised by \<^verbatim>\<open>subprocess.Popen\<close>, kept apart to track its origin\<close>

record asset =
  name :: string
  browser_download_url :: string

datatype download_outcome =
    DlRequestException string       \<comment> \<open>\<^verbatim>\<open>requests.get\<close> or \<^verbatim>\<open>raise_for_status\<close> raises: no file is opened\<close>
  | DlOSError string                \<comment> \<open>\<^verbatim>\<open>os.makedirs\<close> of line 88 or \<^verbatim>\<open>open\<close> raises: no file is opened\<close>
  | DlStreamException string string \<comment> \<open>\<^verbatim>\<open>iter_content\<close> raises (second field) once the file holds the first field\<close>
  | DlWriteError string string      \<comment> \<open>\<^verbatim>\<open>f.write\<close> raises \<^verbatim>\<open>OSError\<close> (second field) once the file holds the first field\<close>
  | DlOk string                     \<comment> \<open>the body, streamed to the file\<close>

datatype conn_outcome =
    Accepted            \<comment> \<open>\<^verbatim>\<open>sock.connect\<close> returns\<close>
  | TimedOut            \<comment> \<open>\<^verbatim>\<open>socket.timeout\<close>\<close>
  | Refused             \<comment> \<open>\<^verbatim>\<open>ConnectionRefusedError\<close>\<close>
  | ConnFailed string   \<comment> \<open>any other \<^verbatim>\<open>OSError\<close> of \<^verbatim>\<open>connect\<close>; the loop does not catch it\<close>

record response =
  content_disposition :: "string option"   \<comment> \<open>\<^verbatim>\<open>response.headers.get("Content-Disposition")\<close>\<close>
  body :: string                           \<comment> \<open>the bytes that \<^verbatim>\<open>iter_content\<close> delivers\<close>
  stream_error :: "string option"          \<comment> \<open>a \<^verbatim>\<open>RequestException\<close> raised by \<^verbatim>\<open>iter_content\<close> afterwards\<close>

datatype retrieval_outcome =
    RetrRequestException string   \<comment> \<open>\<^verbatim>\<open>requests.get\<close> or \<^verbatim>\<open>raise_for_status\<close> raises\<close>
  | RetrResponse response

record env =
  os_name :: string                             \<comment> \<open>\<^verbatim>\<open>platform.system().lower()\<close>\<close>
  arch :: string                                \<comment> \<open>\<^verbatim>\<open>platform.machine()\<close>\<close>
  metadata_response :: "string + asset list"    \<comment> \<open>\<open>Inl\<close>: the text of the \<^verbatim>\<open>RequestException\<close>; \<open>Inr\<close>: \<^verbatim>\<open>data.get('assets', [])\<close>\<close>
  makedirs_error :: "string option"             \<comment> \<open>\<^verbatim>\<open>os.makedirs(download_dir)\<close> of line 77 raises \<^verbatim>\<open>OSError\<close>\<close>
  install_path :: "string \<Rightarrow> string"             \<comment> \<open>URL to \<^verbatim>\<open>os.path.join(download_dir, os.path.basename(url))\<close>\<close>
  asset_response :: download_outcome
  posix :: bool                                 \<comment> \<open>\<^verbatim>\<open>os.name == 'posix'\<close>\<close>
  chmod_error :: "string option"                \<comment> \<open>\<^verbatim>\<open>os.chmod\<close> raises \<^verbatim>\<open>OSError\<close>\<close>
  bee_exists :: bool                            \<comment> \<open>\<^verbatim>\<open>os.path.exists(bee_path)\<close>\<close>
  spawn_error :: "string option"                \<comment> \<open>\<^verbatim>\<open>subprocess.Popen\<close> raises, in the thread\<close>
  connect :: "nat \<Rightarrow> conn_outcome"              \<comment> \<open>outcome of the connection attempt made after \<open>k\<close> failed ones\<close>
  retrieval_response :: retrieval_outcome
  open_error :: "string \<Rightarrow> string option"       \<comment> \<open>\<^verbatim>\<open>open(filename, 'wb')\<close> raises \<^verbatim>\<open>OSError\<close>\<close>
  alive_after_join :: bool                      \<comment> \<open>the thread is still running when \<^verbatim>\<open>join(timeout=1)\<close> returns\<close>

datatype probe_event = Connect nat | Sleep nat
  \<comment> \<open>\<open>Connect t\<close>: a new socket with \<^verbatim>\<open>settimeout(t)\<close> and one \<^verbatim>\<open>connect\<close>; \<open>Sleep t\<close>: \<^verbatim>\<open>time.sleep(t)\<close>\<close>

datatype event_op = EvSet | EvClear
  \<comment> \<open>the two writes that \<^verbatim>\<open>threading.Event\<close> offers: \<^verbatim>\<open>set()\<close> and \<^verbatim>\<open>clear()\<close>\<close>

record world =
  net_calls :: "string list"               \<comment> \<open>the URLs given to \<^verbatim>\<open>requests.get\<close>, in order\<close>
  files :: "(string \<times> string) list"        \<comment> \<open>(path, bytes) of every file written\<close>
  chmods :: "string list"                  \<comment> \<open>paths given mode 0755\<close>
  thread_args :: "string option"           \<comment> \<open>\<^verbatim>\<open>bee_path\<close> given to the thread, once \<^verbatim>\<open>bee_thread.start()\<close> was called\<close>
  probe_log :: "probe_event list"
  stdout :: "string list"                  \<comment> \<open>the lines printed\<close>
  flag_writes :: "event_op list"           \<comment> \<open>the writes of the main thread to \<^verbatim>\<open>stop_flag\<close>\<close>
  joins :: "nat list"                      \<comment> \<open>the timeouts of the calls of \<^verbatim>\<open>bee_thread.join\<close>\<close>
  force_terminated :: bool                 \<comment> \<open>\<^verbatim>\<open>bee_process.terminate()\<close> of line 182 was called\<close>

definition init_world :: world where
  "init_world = \<lparr>net_calls = [], files = [], chmods = [], thread_args = None,
     probe_log = [], stdout = [], flag_writes = [], joins = [], force_terminated = False\<rparr>"

section \<open>The stop flag\<close>

text \<open>
  \<^verbatim>\<open>threading.Event()\<close> starts unset. \<open>flag_after\<close> is the value of the flag after a
  sequence of writes.
\<close>

fun apply_op :: "event_op \<Rightarrow> bool \<Rightarrow> bool" where
  "apply_op EvSet b = True"
| "apply_op EvClear b = False"

definition flag_after :: "event_op list \<Rightarrow> bool" where
  "flag_after ops = foldl (\<lambda>b ev. apply_op ev b) False ops"

text \<open>
  The number of times the flag goes from unset to set in a sequence of writes,
  starting from the value \<open>b\<close>.
\<close>

fun transitions :: "bool \<Rightarrow> event_op list \<Rightarrow> nat" where
  "transitions b [] = 0"
| "transitions b (ev # evs) =
     (if \<not> b \<and> apply_op ev b then 1 else 0) + transitions (apply_op ev b) evs"

text \<open>
  The supervision thread reads the flag while the main thread writes it. A schedule
  interleaves the two: \<open>MainStep\<close> lets the main thread perform its next write (if any),
  \<open>Poll\<close> is one \<^verbatim>\<open>stop_flag.is_set()\<close> of the thread. \<open>observe\<close> returns
  the values that the polls see.
\<close>

datatype tick = MainStep | Poll

fun observe :: "bool \<Rightarrow> event_op list \<Rightarrow> tick list \<Rightarrow> bool list" where
  "observe b ws [] = []"
| "observe b ws (Poll # ts) = b # observe b ws ts"
| "observe b [] (MainStep # ts) = observe b [] ts"
| "observe b (ev # ws) (MainStep # ts) = observe (apply_op ev b) ws ts"

section \<open>Node Supervisor: \<^verbatim>\<open>start_bee_node\<close>\<close>

datatype proc_event = PopenCall "string list" | Terminate | Wait

datatype thread_outcome =
    ThreadRaised exn    \<comment> \<open>the thread ended with an exception\<close>
  | ThreadPolling       \<comment> \<open>the thread is still in its \<^verbatim>\<open>while\<close> loop\<close>
  | ThreadReturned      \<comment> \<open>\<^verbatim>\<open>start_bee_node\<close> returned\<close>

text \<open>
  \<^verbatim>\<open>while not stop_flag.is_set(): time.sleep(0)\<close> over the values that the successive
  polls see: \<open>True\<close> when the loop is left, \<open>False\<close> when all the polls given saw the flag
  unset and the loop goes on.
\<close>

fun poll_loop :: "bool list \<Rightarrow> bool" where
  "poll_loop [] = False"
| "poll_loop (b # bs) = (if b then True else poll_loop bs)"

definition command :: "string \<Rightarrow> string list" where
  "command bee_path = [bee_path, ''start'', ''--swap-enable=false'', ''--full-node=false'',
     ''--blockchain-rpc-endpoint='', ''--password=beeget'']"

definition start_bee_node :: "string \<Rightarrow> string option \<Rightarrow> bool list \<Rightarrow> thread_outcome \<times> proc_event list" where
  "start_bee_node bee_path spawn polls =
     (case spawn of
        Some e \<Rightarrow> (ThreadRaised (PopenError e), [PopenCall (command bee_path)])
      | None \<Rightarrow>
          if poll_loop polls
          then (ThreadReturned, [PopenCall (command bee_path), Terminate, Wait])
          else (ThreadPolling, [PopenCall (command bee_path)]))"

section \<open>Release Locator and Binary Installer: \<^verbatim>\<open>download_latest_bee\<close>\<close>

definition releases_url :: string where
  "releases_url = ''https://api.github.com/repos/ethersphere/bee/releases/latest''"

definition filename_map :: "string \<times> string \<Rightarrow> string option" where
  "filename_map = map_of
     [((''linux'', ''x86_64''), ''bee-linux-amd64''),
      ((''linux'', ''arm64''), ''bee-linux-arm64''),
      ((''darwin'', ''x86_64''), ''bee-darwin-amd64''),
      ((''darwin'', ''arm64''), ''bee-darwin-arm64''),
      ((''windows'', ''x86_64''), ''bee-windows-amd64.exe'')]"

text \<open>
  The loop of lines 59 to 63: \<open>target\<close> is \<^verbatim>\<open>filename_map.get((os_name, arch))\<close>, the
  result is \<^verbatim>\<open>download_url\<close> after the loop (\<open>None\<close> as in Python). An asset name is
  a string, so it never equals a missing table entry.
\<close>

fun find_download_url :: "asset list \<Rightarrow> string option \<Rightarrow> string option" where
  "find_download_url [] target = None"
| "find_download_url (a # as) target =
     (if Some (name a) = target then Some (browser_download_url a)
      else find_download_url as target)"

definition not_found_message :: "string \<Rightarrow> string \<Rightarrow> string" where
  "not_found_message os ar = ''Bee binary not found for architecture: '' @ os @ ''-'' @ ar"

text \<open>Lines 98 to 102: the binary is made executable on POSIX and its path returned.\<close>

definition make_executable :: "env \<Rightarrow> string \<Rightarrow> world \<Rightarrow> (exn + string) \<times> world" where
  "make_executable e download_path w =
     (if posix e
      then (case chmod_error e of
              Some m \<Rightarrow> (Inl (OSError m), w)
            | None \<Rightarrow> (Inr download_path, w\<lparr>chmods := chmods w @ [download_path]\<rparr>))
      else (Inr download_path, w))"

text \<open>
  Lines 83 to 96: the asset is requested and streamed to \<^verbatim>\<open>download_path\<close>. A
  \<^verbatim>\<open>RequestException\<close> and an \<^verbatim>\<open>OSError\<close> raised there are both turned into a
  \<^verbatim>\<open>RuntimeError\<close>. Once \<^verbatim>\<open>open(download_path, 'wb')\<close> has returned, the file exists
  with the bytes written so far, also when the stream or the write then fails.
\<close>

definition fetch_asset :: "env \<Rightarrow> string \<Rightarrow> string \<Rightarrow> world \<Rightarrow> (exn + string) \<times> world" where
  "fetch_asset e download_url download_path w =
     (case asset_response e of
        DlRequestException m \<Rightarrow>
          (Inl (RuntimeError (''Failed to download Bee binary: '' @ m)),
           w\<lparr>net_calls := net_calls w @ [download_url]\<rparr>)
      | DlOSError m \<Rightarrow>
          (Inl (RuntimeError (''Failed to create directory structure: '' @ m)),
           w\<lparr>net_calls := net_calls w @ [download_url]\<rparr>)
      | DlStreamException written m \<Rightarrow>
          (Inl (RuntimeError (''Failed to download Bee binary: '' @ m)),
           w\<lparr>net_calls := net_calls w @ [download_url],
             files := files w @ [(download_path, written)]\<rparr>)
      | DlWriteError written m \<Rightarrow>
          (Inl (RuntimeError (''Failed to create directory structure: '' @ m)),
           w\<lparr>net_calls := net_calls w @ [download_url],
             files := files w @ [(download_path, written)]\<rparr>)
      | DlOk bytes \<Rightarrow>
          make_executable e download_path
            (w\<lparr>net_calls := net_calls w @ [download_url],
               files := files w @ [(download_path, bytes)]\<rparr>))"

text \<open>
  Lines 68 to 102, once \<^verbatim>\<open>download_url\<close> is a non-empty string. The
  \<^verbatim>\<open>os.makedirs\<close> of line 77 is outside every \<^verbatim>\<open>try\<close>: its \<^verbatim>\<open>OSError\<close> is
  raised as it is, and so is the one of \<^verbatim>\<open>os.chmod\<close>.
\<close>

definition install_binary :: "env \<Rightarrow> string \<Rightarrow> world \<Rightarrow> (exn + string) \<times> world" where
  "install_binary e download_url w =
     (case makedirs_error e of
        Some m \<Rightarrow> (Inl (OSError m), w)
      | None \<Rightarrow> fetch_asset e download_url (install_path e download_url) w)"

definition download_latest_bee :: "env \<Rightarrow> world \<Rightarrow> (exn + string) \<times> world" where
  "download_latest_bee e w =
     (let w1 = w\<lparr>net_calls := net_calls w @ [releases_url]\<rparr>
      in case metadata_response e of
           Inl m \<Rightarrow> (Inl (RuntimeError (''Failed to download latest Bee release: '' @ m)), w1)
         | Inr assets \<Rightarrow>
             (case find_download_url assets (filename_map (os_name e, arch e)) of
                None \<Rightarrow> (Inl (RuntimeError (not_found_message (os_name e) (arch e))), w1)
              | Some download_url \<Rightarrow>
                  if download_url = []
                  then (Inl (RuntimeError (not_found_message (os_name e) (arch e))), w1)
                  else install_binary e download_url w1))"

section \<open>Readiness Prober: the loop of lines 131 to 143\<close>

definition max_retries :: nat where
  "max_retries = 30"

text \<open>Python's \<^verbatim>\<open>str\<close> of a non-negative integer, for the f-string of line 142.\<close>

definition digit_char :: "nat \<Rightarrow> char" where
  "digit_char d = ''0123456789'' ! d"

fun str_nat :: "nat \<Rightarrow> string" where
  "str_nat n = (if n < 10 then [digit_char n] else str_nat (n div 10) @ [digit_char (n mod 10)])"

definition timeout_message :: string where
  "timeout_message = ''Bee node failed to start after '' @ str_nat max_retries @ '' retries.''"

text \<open>
  One iteration per call. \<^verbatim>\<open>retry_count\<close> is the number of failed attempts so far, so
  the attempt made now is the one that the environment answers at index
  \<^verbatim>\<open>retry_count\<close>. Only \<^verbatim>\<open>socket.timeout\<close> and \<^verbatim>\<open>ConnectionRefusedError\<close> are caught.
\<close>

function wait_for_bee :: "(nat \<Rightarrow> conn_outcome) \<Rightarrow> nat \<Rightarrow> probe_event list \<Rightarrow> (exn + unit) \<times> probe_event list" where
  "wait_for_bee conn retry_count log =
     (case conn retry_count of
        Accepted \<Rightarrow> (Inr (), log @ [Connect 1])
      | ConnFailed m \<Rightarrow> (Inl (OSError m), log @ [Connect 1])
      | TimedOut \<Rightarrow>
          (if retry_count + 1 \<ge> max_retries
           then (Inl (RuntimeError timeout_message), log @ [Connect 1])
           else wait_for_bee conn (retry_count + 1) (log @ [Connect 1, Sleep 1]))
      | Refused \<Rightarrow>
          (if retry_count + 1 \<ge> max_retries
           then (Inl (RuntimeError timeout_message), log @ [Connect 1])
           else wait_for_bee conn (retry_count + 1) (log @ [Connect 1, Sleep 1])))"
  by pat_completeness auto
termination
  by (relation "measure (\<lambda>(conn, retry_count, log). max_retries - retry_count)") auto

section \<open>Retrieval Client: the output filename\<close>

text \<open>
  \<^verbatim>\<open>re.search(r'filename="(.*?)"', s)\<close>. At one position the pattern matches when
  the text there starts with \<^verbatim>\<open>filename="\<close> and a closing double quote follows before
  any line feed (\<^verbatim>\<open>.\<close> matches every character but the line feed); the lazy group is
  then the text up to the first closing quote. The search takes the leftmost position
  that matches.
\<close>

definition fn_prefix :: string where
  "fn_prefix = ''filename=\"''"

definition dquote :: char where
  "dquote = CHR 0x22"

definition linefeed :: char where
  "linefeed = CHR 0x0A"

fun lazy_group :: "string \<Rightarrow> string option" where
  "lazy_group [] = None"
| "lazy_group (c # cs) =
     (if c = dquote then Some []
      else if c = linefeed then None
      else map_option ((#) c) (lazy_group cs))"

definition match_at :: "string \<Rightarrow> string option" where
  "match_at s = (if prefix fn_prefix s then lazy_group (drop (length fn_prefix) s) else None)"

fun re_search :: "string \<Rightarrow> string option" where
  "re_search [] = None"
| "re_search (c # cs) =
     (case match_at (c # cs) of Some g \<Rightarrow> Some g | None \<Rightarrow> re_search cs)"

definition fallback_filename :: "string \<Rightarrow> string" where
  "fallback_filename swarmhash = ''downloaded_file_'' @ swarmhash @ ''.dat''"

text \<open>
  Lines 150 to 160. \<^verbatim>\<open>if content_disposition:\<close> is false for \<^verbatim>\<open>None\<close> and for the empty
  string, \<^verbatim>\<open>if not filename:\<close> is true for \<^verbatim>\<open>None\<close> and for the empty string.
\<close>

definition header_filename :: "string option \<Rightarrow> string option" where
  "header_filename cd =
     (case cd of
        None \<Rightarrow> None
      | Some h \<Rightarrow> if h = [] then None else re_search h)"

definition output_filename :: "string option \<Rightarrow> string \<Rightarrow> string" where
  "output_filename cd swarmhash =
     (case header_filename cd of
        None \<Rightarrow> fallback_filename swarmhash
      | Some f \<Rightarrow> if f = [] then fallback_filename swarmhash else f)"

section \<open>Orchestrator: \<^verbatim>\<open>query_bee_api\<close> and the CLI\<close>

definition bee_url :: "string \<Rightarrow> string" where
  "bee_url swarmhash = ''http://localhost:1633/bzz/'' @ swarmhash"

definition retrieval_message :: "string \<Rightarrow> string" where
  "retrieval_message m = ''Failed to download file using Bee API: '' @ m"

text \<open>
  Lines 162 to 169 for a response with a good status: the file is opened and written,
  the line is printed and the stop flag set. An \<^verbatim>\<open>OSError\<close> of \<^verbatim>\<open>open\<close> is not caught by
  the handler of line 171; a \<^verbatim>\<open>RequestException\<close> of the stream is.
\<close>

definition save_response :: "env \<Rightarrow> response \<Rightarrow> string \<Rightarrow> world \<Rightarrow> (exn + unit) \<times> world" where
  "save_response e r filename w =
     (case open_error e filename of
        Some m \<Rightarrow> (Inl (OSError m), w)
      | None \<Rightarrow>
          (case stream_error r of
             Some m \<Rightarrow> (Inl (RuntimeError (retrieval_message m)),
                        w\<lparr>files := files w @ [(filename, body r)]\<rparr>)
           | None \<Rightarrow> (Inr (),
                      w\<lparr>files := files w @ [(filename, body r)],
                        stdout := stdout w @ [''Downloaded file: '' @ filename],
                        flag_writes := flag_writes w @ [EvSet]\<rparr>)))"

text \<open>The \<^verbatim>\<open>try\<close> statement of lines 145 to 172.\<close>

definition retrieve :: "string \<Rightarrow> env \<Rightarrow> world \<Rightarrow> (exn + unit) \<times> world" where
  "retrieve swarmhash e w =
     (case retrieval_response e of
        RetrRequestException m \<Rightarrow>
          (Inl (RuntimeError (retrieval_message m)),
           w\<lparr>net_calls := net_calls w @ [bee_url swarmhash]\<rparr>)
      | RetrResponse r \<Rightarrow>
          save_response e r (output_filename (content_disposition r) swarmhash)
            (w\<lparr>net_calls := net_calls w @ [bee_url swarmhash]\<rparr>))"

text \<open>
  \<^verbatim>\<open>threading.Thread.join\<close> returns \<^verbatim>\<open>None\<close>, whether the thread has ended or the
  timeout has elapsed.
\<close>

definition thread_join :: "nat \<Rightarrow> bool \<Rightarrow> unit option" where
  "thread_join timeout still_alive = None"

text \<open>Lines 176 to 182, reached only when the \<^verbatim>\<open>try\<close> statement ends without raising.\<close>

definition shutdown :: "env \<Rightarrow> world \<Rightarrow> world" where
  "shutdown e w =
     (let w1 = w\<lparr>flag_writes := flag_writes w @ [EvSet], joins := joins w @ [1]\<rparr>;
          bee_process = thread_join 1 (alive_after_join e)
      in if bee_process \<noteq> None then w1\<lparr>force_terminated := True\<rparr> else w1)"

text \<open>
  Lines 120 to 182: the stop flag is created unset, the thread is started on
  \<^verbatim>\<open>start_bee_node\<close>, then the probe, the retrieval and the shutdown follow.
  \<^verbatim>\<open>bee_thread.start()\<close> returns as soon as the thread runs; what the thread raises
  stays in the thread.
\<close>

definition run_node :: "string \<Rightarrow> string \<Rightarrow> env \<Rightarrow> world \<Rightarrow> (exn + unit) \<times> world" where
  "run_node swarmhash bee_path e w =
     (case wait_for_bee (connect e) 0 [] of
        (Inl x, log) \<Rightarrow> (Inl x, w\<lparr>thread_args := Some bee_path, probe_log := log\<rparr>)
      | (Inr u, log) \<Rightarrow>
          (case retrieve swarmhash e (w\<lparr>thread_args := Some bee_path, probe_log := log\<rparr>) of
             (Inl x, w1) \<Rightarrow> (Inl x, w1)
           | (Inr u1, w1) \<Rightarrow> (Inr (), shutdown e w1)))"

definition query_bee_api :: "string \<Rightarrow> env \<Rightarrow> world \<Rightarrow> (exn + unit) \<times> world" where
  "query_bee_api swarmhash e w =
     (case download_latest_bee e w of
        (Inl x, w1) \<Rightarrow> (Inl x, w1)
      | (Inr bee_path, w1) \<Rightarrow>
          if \<not> bee_exists e
          then (Inl (RuntimeError ''Bee binary not found. Please ensure it's downloaded or installed.''), w1)
          else run_node swarmhash bee_path e w1)"

text \<open>
  The background thread of a run: nothing when the thread was never started, else
  \<^verbatim>\<open>start_bee_node\<close> on the path it was given, with the outcome of \<^verbatim>\<open>Popen\<close> and the
  values that its polls of the stop flag see under the schedule.
\<close>

definition bee_thread :: "string \<Rightarrow> env \<Rightarrow> tick list \<Rightarrow> (thread_outcome \<times> proc_event list) option" where
  "bee_thread swarmhash e sched =
     (let w = snd (query_bee_api swarmhash e init_world)
      in case thread_args w of
           None \<Rightarrow> None
         | Some bee_path \<Rightarrow>
             Some (start_bee_node bee_path (spawn_error e) (observe False (flag_writes w) sched)))"

text \<open>
  The \<^verbatim>\<open>__main__\<close> block: the lines on standard output and the exit status of the
  interpreter. A \<^verbatim>\<open>RuntimeError\<close> is printed and the script ends normally; any other
  exception is not caught, so the interpreter prints a traceback on standard error and
  exits with status 1.
\<close>

definition main :: "string \<Rightarrow> env \<Rightarrow> string list \<times> nat" where
  "main swarmhash e =
     (case query_bee_api swarmhash e init_world of
        (Inr u, w) \<Rightarrow> (stdout w, 0)
      | (Inl (RuntimeError m), w) \<Rightarrow> (stdout w @ [''Error: '' @ m], 0)
      | (Inl (OSError m), w) \<Rightarrow> (stdout w, 1)
      | (Inl (PopenError m), w) \<Rightarrow> (stdout w, 1))"

section \<open>Notions used to state the properties\<close>

text \<open>An attempt that the probe loop answers with another attempt.\<close>

definition retryable :: "conn_outcome \<Rightarrow> bool" where
  "retryable c = (c = TimedOut \<or> c = Refused)"

text \<open>The numbers of connection attempts and of sleeps in a probe log.\<close>

definition attempts :: "probe_event list \<Rightarrow> nat" where
  "attempts log = length (filter (\<lambda>ev. case ev of Connect t \<Rightarrow> True | Sleep t \<Rightarrow> False) log)"

definition sleeps :: "probe_event list \<Rightarrow> nat" where
  "sleeps log = length (filter (\<lambda>ev. case ev of Connect t \<Rightarrow> False | Sleep t \<Rightarrow> True) log)"

text \<open>
  The log of \<open>n\<close> failed attempts, each made with a timeout of one second and followed
  by a sleep of one second, and of one more attempt with nothing after it.
\<close>

definition retry_log :: "nat \<Rightarrow> probe_event list" where
  "retry_log n = concat (replicate n [Connect 1, Sleep 1]) @ [Connect 1]"

text \<open>The platforms of the table of the Release Locator, as the specification lists them.\<close>

definition platform_table :: "(string \<times> string) set" where
  "platform_table = {(''linux'', ''x86_64''), (''linux'', ''arm64''), (''darwin'', ''x86_64''),
     (''darwin'', ''arm64''), (''windows'', ''x86_64'')}"

section \<open>Example runs\<close>

text \<open>
  A run where everything succeeds: Linux on x86_64, one matching asset, the port
  accepts the third connection attempt, the gateway answers 200 without a
  Content-Disposition header.
\<close>

definition env_ok :: env where
  "env_ok = \<lparr>os_name = ''linux'', arch = ''x86_64'',
     metadata_response = Inr [\<lparr>name = ''bee-linux-amd64'',
        browser_download_url = ''https://example.org/dl/bee-linux-amd64''\<rparr>],
     makedirs_error = None,
     install_path = (\<lambda>u. ''/home/u/.local/bin/bee-linux-amd64''),
     asset_response = DlOk ''ELF'', posix = True, chmod_error = None, bee_exists = True,
     spawn_error = None,
     connect = (\<lambda>k. if k < 2 then Refused else Accepted),
     retrieval_response = RetrResponse \<lparr>content_disposition = None, body = ''hello'', stream_error = None\<rparr>,
     open_error = (\<lambda>f. None), alive_after_join = False\<rparr>"

text \<open>The gateway answers 404: \<^verbatim>\<open>raise_for_status\<close> raises.\<close>

definition env_retrieval_fails :: env where
  "env_retrieval_fails = env_ok\<lparr>retrieval_response := RetrRequestException ''404 Client Error''\<rparr>"

text \<open>The child process ignores the termination request: the thread outlives the join.\<close>

definition env_node_hangs :: env where
  "env_node_hangs = env_ok\<lparr>alive_after_join := True\<rparr>"

text \<open>The binary cannot be executed, and so nothing listens on the port.\<close>

definition env_spawn_fails :: env where
  "env_spawn_fails = env_ok\<lparr>spawn_error := Some ''[Errno 8] Exec format error'',
     connect := (\<lambda>k. Refused)\<rparr>"

text \<open>The current directory is not writable: \<^verbatim>\<open>open(filename, 'wb')\<close> raises.\<close>

definition env_open_fails :: env where
  "env_open_fails = env_ok\<lparr>open_error := (\<lambda>f. Some ''[Errno 13] Permission denied'')\<rparr>"

text \<open>A platform that the table does not list.\<close>

definition env_unsupported :: env where
  "env_unsupported = env_ok\<lparr>arch := ''riscv64''\<rparr>"

text \<open>A release with two assets of the name looked for.\<close>

definition env_two_assets :: env where
  "env_two_assets = env_ok\<lparr>metadata_response := Inr
     [\<lparr>name = ''bee-darwin-arm64'', browser_download_url = ''https://example.org/dl/0''\<rparr>,
      \<lparr>name = ''bee-linux-amd64'', browser_download_url = ''https://example.org/dl/1''\<rparr>,
      \<lparr>name = ''bee-linux-amd64'', browser_download_url = ''https://example.org/dl/2''\<rparr>]\<rparr>"

text \<open>The installed binary belongs to another user: \<^verbatim>\<open>os.chmod\<close> raises.\<close>

definition env_chmod_fails :: env where
  "env_chmod_fails = env_ok\<lparr>chmod_error := Some ''[Errno 1] Operation not permitted''\<rparr>"

text \<open>The gateway names the file in a Content-Disposition header.\<close>

definition env_report :: env where
  "env_report = env_ok\<lparr>retrieval_response := RetrResponse
     \<lparr>content_disposition = Some ''attachment; filename=\"report.dat\"'', body = ''hello'',
      stream_error = None\<rparr>\<rparr>"

text \<open>The header has a quoted filename token with nothing between the quotes.\<close>

definition env_empty_token :: env where
  "env_empty_token = env_ok\<lparr>retrieval_response := RetrResponse
     \<lparr>content_disposition = Some ''attachment; filename=\"\"'', body = ''hello'',
      stream_error = None\<rparr>\<rparr>"

text \<open>
  The install directory is missing and cannot be created: the \<^verbatim>\<open>os.makedirs\<close> of line 77
  raises.
\<close>

definition env_makedirs_fails :: env where
  "env_makedirs_fails = env_ok\<lparr>makedirs_error := Some ''[Errno 13] Permission denied''\<rparr>"

text \<open>The \<^verbatim>\<open>os.makedirs\<close> of line 88 or the \<^verbatim>\<open>open\<close> of line 90 raises.\<close>

definition env_asset_dir_fails :: env where
  "env_asset_dir_fails = env_ok\<lparr>asset_response := DlOSError ''[Errno 13] Permission denied''\<rparr>"

section \<open>The readiness prober\<close>

declare wait_for_bee.simps [simp del]

lemma timeout_message_eq: "timeout_message = ''Bee node failed to start after 30 retries.''"
  by (simp add: timeout_message_def max_retries_def digit_char_def)

lemma wait_for_bee_accept:
  "conn retry_count = Accepted \<Longrightarrow> wait_for_bee conn retry_count log = (Inr (), log @ [Connect 1])"
  by (subst wait_for_bee.simps) simp

lemma wait_for_bee_last:
  "retryable (conn retry_count) \<Longrightarrow> max_retries \<le> retry_count + 1 \<Longrightarrow>
   wait_for_bee conn retry_count log = (Inl (RuntimeError timeout_message), log @ [Connect 1])"
  by (subst wait_for_bee.simps) (auto simp: retryable_def)

lemma wait_for_bee_retry:
  "retryable (conn retry_count) \<Longrightarrow> retry_count + 1 < max_retries \<Longrightarrow>
   wait_for_bee conn retry_count log = wait_for_bee conn (retry_count + 1) (log @ [Connect 1, Sleep 1])"
  by (subst wait_for_bee.simps) (auto simp: retryable_def)

lemma wait_for_bee_exhausted:
  "retry_count + n + 1 = max_retries \<Longrightarrow>
   (\<And>k. retry_count \<le> k \<Longrightarrow> k < max_retries \<Longrightarrow> retryable (conn k)) \<Longrightarrow>
   wait_for_bee conn retry_count log =
     (Inl (RuntimeError timeout_message),
      log @ concat (replicate n [Connect 1, Sleep 1]) @ [Connect 1])"
proof (induction n arbitrary: retry_count log)
  case 0
  then show ?case by (simp add: wait_for_bee_last)
next
  case (Suc n)
  have "wait_for_bee conn retry_count log =
        wait_for_bee conn (retry_count + 1) (log @ [Connect 1, Sleep 1])"
    using Suc.prems by (intro wait_for_bee_retry) simp_all
  also have "\<dots> = (Inl (RuntimeError timeout_message),
      (log @ [Connect 1, Sleep 1]) @ concat (replicate n [Connect 1, Sleep 1]) @ [Connect 1])"
    using Suc.prems by (intro Suc.IH) simp_all
  finally show ?case by simp
qed

lemma wait_for_bee_accepted_later:
  "retry_count + n < max_retries \<Longrightarrow>
   (\<And>k. retry_count \<le> k \<Longrightarrow> k < retry_count + n \<Longrightarrow> retryable (conn k)) \<Longrightarrow>
   conn (retry_count + n) = Accepted \<Longrightarrow>
   wait_for_bee conn retry_count log =
     (Inr (), log @ concat (replicate n [Connect 1, Sleep 1]) @ [Connect 1])"
proof (induction n arbitrary: retry_count log)
  case 0
  then show ?case by (simp add: wait_for_bee_accept)
next
  case (Suc n)
  have "wait_for_bee conn retry_count log =
        wait_for_bee conn (retry_count + 1) (log @ [Connect 1, Sleep 1])"
    using Suc.prems by (intro wait_for_bee_retry) simp_all
  also have "\<dots> = (Inr (),
      (log @ [Connect 1, Sleep 1]) @ concat (replicate n [Connect 1, Sleep 1]) @ [Connect 1])"
    using Suc.prems by (intro Suc.IH) simp_all
  finally show ?case by simp
qed

lemma attempts_retry_log: "attempts (retry_log n) = n + 1"
  by (induction n) (simp_all add: attempts_def retry_log_def)

lemma sleeps_retry_log: "sleeps (retry_log n) = n"
  by (induction n) (simp_all add: sleeps_def retry_log_def)

lemma last_retry_log: "last (retry_log n) = Connect 1"
  by (simp add: retry_log_def)

text \<open>
  C2. When none of the first 30 connection attempts is accepted (each times out or is
  refused), the prober makes exactly 30 attempts, each with a timeout of one second, with
  a sleep of one second between consecutive attempts, 29 sleeps in all, and fails with the
  timeout error. When the \<open>N\<close>-th attempt is the first accepted one, \<open>1 \<le> N \<le> 30\<close>, the
  prober returns after exactly \<open>N\<close> attempts and \<open>N - 1\<close> sleeps, the last event being the
  accepted attempt.
\<close>

theorem prober_attempts:
  "((\<forall>k<30. connect e k = TimedOut \<or> connect e k = Refused) \<longrightarrow>
      wait_for_bee (connect e) 0 [] =
        (Inl (RuntimeError ''Bee node failed to start after 30 retries.''), retry_log 29) \<and>
      attempts (retry_log 29) = 30 \<and> sleeps (retry_log 29) = 29 \<and>
      last (retry_log 29) = Connect 1) \<and>
   (1 \<le> N \<and> N \<le> 30 \<and> (\<forall>k<N - 1. connect e k = TimedOut \<or> connect e k = Refused) \<and>
    connect e (N - 1) = Accepted \<longrightarrow>
      wait_for_bee (connect e) 0 [] = (Inr (), retry_log (N - 1)) \<and>
      attempts (retry_log (N - 1)) = N \<and> sleeps (retry_log (N - 1)) = N - 1 \<and>
      last (retry_log (N - 1)) = Connect 1)"
proof (intro conjI impI)
  assume a: "\<forall>k<30. connect e k = TimedOut \<or> connect e k = Refused"
  have "wait_for_bee (connect e) 0 [] =
        (Inl (RuntimeError timeout_message), [] @ concat (replicate 29 [Connect 1, Sleep 1]) @ [Connect 1])"
    using a by (intro wait_for_bee_exhausted) (simp_all add: max_retries_def retryable_def)
  then show "wait_for_bee (connect e) 0 [] =
        (Inl (RuntimeError ''Bee node failed to start after 30 retries.''), retry_log 29)"
    by (simp add: timeout_message_eq retry_log_def)
next
  assume a: "1 \<le> N \<and> N \<le> 30 \<and> (\<forall>k<N - 1. connect e k = TimedOut \<or> connect e k = Refused) \<and>
    connect e (N - 1) = Accepted"
  then have "N - 1 < 30"
    by arith
  then have lt: "0 + (N - 1) < max_retries"
    by (simp add: max_retries_def)
  have "wait_for_bee (connect e) 0 [] =
        (Inr (), [] @ concat (replicate (N - 1) [Connect 1, Sleep 1]) @ [Connect 1])"
    using a lt by (intro wait_for_bee_accepted_later) (simp_all add: retryable_def)
  then show "wait_for_bee (connect e) 0 [] = (Inr (), retry_log (N - 1))"
    by (simp add: retry_log_def)
  show "attempts (retry_log (N - 1)) = N"
    using a by (simp add: attempts_retry_log)
qed (simp_all add: attempts_retry_log sleeps_retry_log last_retry_log)

theorem prober_attempts_witness:
  "wait_for_bee (connect env_spawn_fails) 0 [] =
     (Inl (RuntimeError ''Bee node failed to start after 30 retries.''), retry_log 29) \<and>
   attempts (retry_log 29) = 30 \<and> sleeps (retry_log 29) = 29 \<and>
   connect env_ok 0 = Refused \<and> connect env_ok 1 = Refused \<and> connect env_ok 2 = Accepted \<and>
   wait_for_bee (connect env_ok) 0 [] = (Inr (), [Connect 1, Sleep 1, Connect 1, Sleep 1, Connect 1])"
proof -
  have h1: "\<forall>k<30. connect env_spawn_fails k = TimedOut \<or> connect env_spawn_fails k = Refused"
    by (simp add: env_spawn_fails_def env_ok_def)
  have h2: "1 \<le> (3::nat) \<and> (3::nat) \<le> 30 \<and>
      (\<forall>k<3 - 1. connect env_ok k = TimedOut \<or> connect env_ok k = Refused) \<and>
      connect env_ok (3 - 1) = Accepted"
    by (simp add: env_ok_def)
  have r: "retry_log (3 - 1) = [Connect 1, Sleep 1, Connect 1, Sleep 1, Connect 1]"
    by (simp add: retry_log_def numeral_2_eq_2)
  have c: "connect env_ok 0 = Refused \<and> connect env_ok 1 = Refused \<and> connect env_ok 2 = Accepted"
    by (simp add: env_ok_def)
  show ?thesis
    using prober_attempts [of env_spawn_fails 3] prober_attempts [of env_ok 3] h1 h2 r c by simp
qed

section \<open>The release locator\<close>

lemma find_download_url_none:
  "(\<forall>a\<in>set assets. Some (name a) \<noteq> target) \<Longrightarrow> find_download_url assets target = None"
  by (induction assets) simp_all

lemma find_download_url_missing_target: "find_download_url assets None = None"
  by (induction assets) simp_all

lemma find_download_url_first:
  "(\<forall>b\<in>set pre. name b \<noteq> fname) \<Longrightarrow> name a = fname \<Longrightarrow>
   find_download_url (pre @ a # post) (Some fname) = Some (browser_download_url a)"
  by (induction pre) simp_all

lemma filename_map_dom: "dom filename_map = platform_table"
  unfolding filename_map_def platform_table_def
  by (simp only: dom_map_of_conv_image_fst list.set image_insert image_empty fst_conv)

lemma filename_map_values:
  "filename_map (''linux'', ''x86_64'') = Some ''bee-linux-amd64'' \<and>
   filename_map (''linux'', ''arm64'') = Some ''bee-linux-arm64'' \<and>
   filename_map (''darwin'', ''x86_64'') = Some ''bee-darwin-amd64'' \<and>
   filename_map (''darwin'', ''arm64'') = Some ''bee-darwin-arm64'' \<and>
   filename_map (''windows'', ''x86_64'') = Some ''bee-windows-amd64.exe''"
  by (simp add: filename_map_def)

lemma metadata_call_first:
  "\<exists>rest. net_calls (snd (download_latest_bee e w)) = net_calls w @ releases_url # rest"
  by (auto simp: download_latest_bee_def install_binary_def fetch_asset_def make_executable_def
        Let_def split: sum.splits option.splits download_outcome.splits)

text \<open>
  C6. The table maps exactly the five listed platforms to the five listed asset names.
  The request for the release metadata is the first network call of every run of
  \<^verbatim>\<open>download_latest_bee\<close>, made before the table is consulted. Once the metadata has
  arrived, a platform absent from the table, or a release none of whose assets has the
  mapped name, makes \<^verbatim>\<open>download_latest_bee\<close> fail with the error "Bee binary not found
  for architecture" (the unsupported-platform error), with the metadata request as the
  only network call: the asset itself is never requested.
\<close>

theorem locator_unsupported_platform:
  "dom filename_map = platform_table \<and>
   filename_map (''linux'', ''x86_64'') = Some ''bee-linux-amd64'' \<and>
   filename_map (''linux'', ''arm64'') = Some ''bee-linux-arm64'' \<and>
   filename_map (''darwin'', ''x86_64'') = Some ''bee-darwin-amd64'' \<and>
   filename_map (''darwin'', ''arm64'') = Some ''bee-darwin-arm64'' \<and>
   filename_map (''windows'', ''x86_64'') = Some ''bee-windows-amd64.exe'' \<and>
   (\<exists>rest. net_calls (snd (download_latest_bee e w)) = net_calls w @ releases_url # rest) \<and>
   (metadata_response e = Inr assets \<and>
    ((os_name e, arch e) \<notin> platform_table \<or>
     (\<forall>a\<in>set assets. Some (name a) \<noteq> filename_map (os_name e, arch e))) \<longrightarrow>
      download_latest_bee e w =
        (Inl (RuntimeError (''Bee binary not found for architecture: '' @ os_name e @ ''-'' @ arch e)),
         w\<lparr>net_calls := net_calls w @ [releases_url]\<rparr>))"
proof -
  have unsupported: "download_latest_bee e w =
        (Inl (RuntimeError (''Bee binary not found for architecture: '' @ os_name e @ ''-'' @ arch e)),
         w\<lparr>net_calls := net_calls w @ [releases_url]\<rparr>)"
    if a: "metadata_response e = Inr assets \<and>
      ((os_name e, arch e) \<notin> platform_table \<or>
       (\<forall>a\<in>set assets. Some (name a) \<noteq> filename_map (os_name e, arch e)))"
  proof -
    have "find_download_url assets (filename_map (os_name e, arch e)) = None"
    proof (cases "(os_name e, arch e) \<in> platform_table")
      case True
      with a show ?thesis by (simp add: find_download_url_none)
    next
      case False
      then have "(os_name e, arch e) \<notin> dom filename_map"
        by (simp only: filename_map_dom not_False_eq_True)
      then have "filename_map (os_name e, arch e) = None"
        by (simp only: domIff not_not)
      then show ?thesis by (simp add: find_download_url_missing_target)
    qed
    with a show ?thesis
      by (simp add: download_latest_bee_def Let_def not_found_message_def)
  qed
  show ?thesis
    using filename_map_dom filename_map_values metadata_call_first [of e w] unsupported
    by blast
qed

theorem locator_unsupported_platform_witness:
  "metadata_response env_unsupported = Inr [\<lparr>name = ''bee-linux-amd64'',
        browser_download_url = ''https://example.org/dl/bee-linux-amd64''\<rparr>] \<and>
   (os_name env_unsupported, arch env_unsupported) = (''linux'', ''riscv64'') \<and>
   (''linux'', ''riscv64'') \<notin> platform_table \<and>
   download_latest_bee env_unsupported init_world =
     (Inl (RuntimeError ''Bee binary not found for architecture: linux-riscv64''),
      init_world\<lparr>net_calls := [releases_url]\<rparr>)"
proof -
  have m: "metadata_response env_unsupported = Inr [\<lparr>name = ''bee-linux-amd64'',
        browser_download_url = ''https://example.org/dl/bee-linux-amd64''\<rparr>]"
    by (simp add: env_unsupported_def env_ok_def)
  have p: "(os_name env_unsupported, arch env_unsupported) = (''linux'', ''riscv64'')"
    by (simp add: env_unsupported_def env_ok_def)
  have n: "(''linux'', ''riscv64'') \<notin> platform_table"
    by (simp add: platform_table_def)
  have i: "net_calls init_world = []"
    by (simp add: init_world_def)
  show ?thesis
    using locator_unsupported_platform [of env_unsupported init_world
        "[\<lparr>name = ''bee-linux-amd64'', browser_download_url = ''https://example.org/dl/bee-linux-amd64''\<rparr>]"]
      m p n i
    by simp
qed

text \<open>
  C10. When several assets of the release have the mapped name, the loop selects the
  download URL of the first of them in list order; when that URL is not empty, it is the
  one that the installation then uses.
\<close>

theorem locator_first_match:
  "metadata_response e = Inr (pre @ a # post) \<and>
   filename_map (os_name e, arch e) = Some (name a) \<and>
   (\<forall>b\<in>set pre. name b \<noteq> name a) \<longrightarrow>
     find_download_url (pre @ a # post) (filename_map (os_name e, arch e)) =
       Some (browser_download_url a) \<and>
     (browser_download_url a \<noteq> [] \<longrightarrow>
        download_latest_bee e w =
          install_binary e (browser_download_url a) (w\<lparr>net_calls := net_calls w @ [releases_url]\<rparr>))"
  by (auto simp: download_latest_bee_def Let_def find_download_url_first)

theorem locator_first_match_witness:
  "find_download_url
     [\<lparr>name = ''bee-darwin-arm64'', browser_download_url = ''https://example.org/dl/0''\<rparr>,
      \<lparr>name = ''bee-linux-amd64'', browser_download_url = ''https://example.org/dl/1''\<rparr>,
      \<lparr>name = ''bee-linux-amd64'', browser_download_url = ''https://example.org/dl/2''\<rparr>]
     (filename_map (os_name env_two_assets, arch env_two_assets)) = Some ''https://example.org/dl/1'' \<and>
   net_calls (snd (download_latest_bee env_two_assets init_world)) =
     [releases_url, ''https://example.org/dl/1'']"
proof -
  have m: "metadata_response env_two_assets = Inr
     ([\<lparr>name = ''bee-darwin-arm64'', browser_download_url = ''https://example.org/dl/0''\<rparr>] @
      \<lparr>name = ''bee-linux-amd64'', browser_download_url = ''https://example.org/dl/1''\<rparr> #
      [\<lparr>name = ''bee-linux-amd64'', browser_download_url = ''https://example.org/dl/2''\<rparr>])"
    by (simp add: env_two_assets_def)
  have f: "filename_map (os_name env_two_assets, arch env_two_assets) = Some ''bee-linux-amd64''"
    by (simp add: env_two_assets_def env_ok_def filename_map_def)
  have i: "net_calls (snd (install_binary env_two_assets ''https://example.org/dl/1''
             (init_world\<lparr>net_calls := net_calls init_world @ [releases_url]\<rparr>))) =
           [releases_url, ''https://example.org/dl/1'']"
    by (simp add: install_binary_def fetch_asset_def make_executable_def env_two_assets_def
          env_ok_def init_world_def)
  show ?thesis
    using locator_first_match [of env_two_assets
        "[\<lparr>name = ''bee-darwin-arm64'', browser_download_url = ''https://example.org/dl/0''\<rparr>]"
        "\<lparr>name = ''bee-linux-amd64'', browser_download_url = ''https://example.org/dl/1''\<rparr>"
        "[\<lparr>name = ''bee-linux-amd64'', browser_download_url = ''https://example.org/dl/2''\<rparr>]"
        init_world] m f i
    by simp
qed

section \<open>The output filename\<close>

lemma lazy_group_token:
  "dquote \<notin> set tok \<Longrightarrow> linefeed \<notin> set tok \<Longrightarrow> lazy_group (tok @ dquote # post) = Some tok"
  by (induction tok) auto

lemma lazy_group_Some:
  "lazy_group s = Some g \<Longrightarrow> \<exists>post. s = g @ dquote # post"
proof (induction s arbitrary: g)
  case Nil
  then show ?case by simp
next
  case (Cons c cs)
  show ?case
  proof (cases "c = dquote")
    case True
    with Cons.prems show ?thesis by simp
  next
    case False
    with Cons.prems obtain g' where g': "lazy_group cs = Some g'" and g: "g = c # g'"
      by (auto split: if_splits)
    from Cons.IH [OF g'] obtain post where "cs = g' @ dquote # post" ..
    with g show ?thesis by simp
  qed
qed

lemma match_at_token:
  "dquote \<notin> set tok \<Longrightarrow> linefeed \<notin> set tok \<Longrightarrow>
   match_at (fn_prefix @ tok @ dquote # post) = Some tok"
  by (simp add: match_at_def lazy_group_token)

lemma match_at_Some:
  "match_at s = Some g \<Longrightarrow> \<exists>post. s = fn_prefix @ g @ dquote # post"
proof -
  assume m: "match_at s = Some g"
  then have p: "prefix fn_prefix s" and l: "lazy_group (drop (length fn_prefix) s) = Some g"
    by (auto simp: match_at_def split: if_splits)
  from p obtain zs where zs: "s = fn_prefix @ zs"
    by (auto simp: prefix_def)
  with l have "lazy_group zs = Some g" by simp
  then obtain post where "zs = g @ dquote # post"
    using lazy_group_Some by blast
  with zs show ?thesis by simp
qed

lemma match_at_not_prefix: "\<not> prefix fn_prefix s \<Longrightarrow> match_at s = None"
  by (simp add: match_at_def)

lemma re_search_match: "match_at s = Some g \<Longrightarrow> re_search s = Some g"
  by (cases s) (simp_all add: match_at_def fn_prefix_def)

lemma re_search_skip:
  "(\<forall>k<length pre. \<not> prefix fn_prefix (drop k (pre @ s))) \<Longrightarrow>
   re_search (pre @ s) = re_search s"
proof (induction pre)
  case Nil
  then show ?case by simp
next
  case (Cons c pre)
  from Cons.prems have "\<not> prefix fn_prefix (drop 0 ((c # pre) @ s))"
    by (metis length_greater_0_conv list.distinct(1))
  then have here: "match_at (c # pre @ s) = None"
    by (simp add: match_at_not_prefix)
  have "\<forall>k<length pre. \<not> prefix fn_prefix (drop k (pre @ s))"
  proof (intro allI impI)
    fix k assume "k < length pre"
    then have "Suc k < length (c # pre)" by simp
    with Cons.prems have "\<not> prefix fn_prefix (drop (Suc k) ((c # pre) @ s))" by blast
    then show "\<not> prefix fn_prefix (drop k (pre @ s))" by simp
  qed
  with Cons.IH have "re_search (pre @ s) = re_search s" by simp
  with here show ?case by simp
qed

lemma re_search_Some:
  "re_search s = Some g \<Longrightarrow> \<exists>pre post. s = pre @ fn_prefix @ g @ dquote # post"
proof (induction s)
  case Nil
  then show ?case by simp
next
  case (Cons c cs)
  show ?case
  proof (cases "match_at (c # cs)")
    case None
    with Cons.prems have "re_search cs = Some g" by simp
    from Cons.IH [OF this] obtain pre post where "cs = pre @ fn_prefix @ g @ dquote # post"
      by blast
    then have "c # cs = (c # pre) @ fn_prefix @ g @ dquote # post" by simp
    then show ?thesis by blast
  next
    case (Some g')
    with Cons.prems have "g' = g" by simp
    with Some obtain post where "c # cs = [] @ fn_prefix @ g @ dquote # post"
      using match_at_Some by fastforce
    then show ?thesis by blast
  qed
qed

lemma re_search_None:
  "\<not> (\<exists>pre tok post. h = pre @ fn_prefix @ tok @ dquote # post) \<Longrightarrow> re_search h = None"
  using re_search_Some [of h] by (cases "re_search h") auto

lemma output_filename_first_token:
  "h = pre @ fn_prefix @ tok @ dquote # post \<Longrightarrow> tok \<noteq> [] \<Longrightarrow>
   dquote \<notin> set tok \<Longrightarrow> linefeed \<notin> set tok \<Longrightarrow>
   (\<forall>k<length pre. \<not> prefix fn_prefix (drop k h)) \<Longrightarrow>
   output_filename (Some h) swarmhash = tok"
proof -
  assume h: "h = pre @ fn_prefix @ tok @ dquote # post" and ne: "tok \<noteq> []"
    and q: "dquote \<notin> set tok" and l: "linefeed \<notin> set tok"
    and first: "\<forall>k<length pre. \<not> prefix fn_prefix (drop k h)"
  have "\<forall>k<length pre. \<not> prefix fn_prefix (drop k (pre @ fn_prefix @ tok @ dquote # post))"
    using first unfolding h .
  then have "re_search (pre @ fn_prefix @ tok @ dquote # post) =
      re_search (fn_prefix @ tok @ dquote # post)"
    by (rule re_search_skip)
  then have "re_search h = re_search (fn_prefix @ tok @ dquote # post)"
    unfolding h .
  also have "\<dots> = Some tok"
    using q l by (intro re_search_match match_at_token)
  finally have "re_search h = Some tok" .
  moreover have "h \<noteq> []" using h by simp
  ultimately show ?thesis
    using ne by (simp add: output_filename_def header_filename_def)
qed

lemma output_filename_empty_token:
  "h = pre @ fn_prefix @ dquote # post \<Longrightarrow>
   (\<forall>k<length pre. \<not> prefix fn_prefix (drop k h)) \<Longrightarrow>
   output_filename (Some h) swarmhash = ''downloaded_file_'' @ swarmhash @ ''.dat''"
proof -
  assume h: "h = pre @ fn_prefix @ dquote # post"
    and first: "\<forall>k<length pre. \<not> prefix fn_prefix (drop k h)"
  have "\<forall>k<length pre. \<not> prefix fn_prefix (drop k (pre @ fn_prefix @ dquote # post))"
    using first unfolding h .
  then have "re_search (pre @ fn_prefix @ dquote # post) = re_search (fn_prefix @ dquote # post)"
    by (rule re_search_skip)
  then have "re_search h = re_search (fn_prefix @ dquote # post)"
    unfolding h .
  also have "\<dots> = Some []"
    using match_at_token [of "[]" post] by (intro re_search_match) simp
  finally have "re_search h = Some []" .
  moreover have "h \<noteq> []" using h by simp
  ultimately show ?thesis
    by (simp add: output_filename_def header_filename_def fallback_filename_def)
qed

lemma output_filename_no_header:
  "output_filename None swarmhash = ''downloaded_file_'' @ swarmhash @ ''.dat''"
  by (simp add: output_filename_def header_filename_def fallback_filename_def)

text \<open>
  C9. When the Content-Disposition header contains no quoted token, that is no
  \<^verbatim>\<open>filename="\<close> with a closing double quote somewhere after it, the output file is named
  \<^verbatim>\<open>downloaded_file_{swarmhash}.dat\<close>, the same name as without the header.
\<close>

theorem filename_fallback_without_token:
  "\<not> (\<exists>pre tok post. h = pre @ fn_prefix @ tok @ dquote # post) \<longrightarrow>
     output_filename (Some h) swarmhash = ''downloaded_file_'' @ swarmhash @ ''.dat'' \<and>
     output_filename (Some h) swarmhash = output_filename None swarmhash"
  using re_search_None [of h]
  by (auto simp: output_filename_def header_filename_def fallback_filename_def)

theorem filename_fallback_without_token_witness:
  "output_filename (Some ''attachment; filename=report.dat'') ''abc123'' = ''downloaded_file_abc123.dat'' \<and>
   output_filename (Some ''inline'') ''abc123'' = ''downloaded_file_abc123.dat''"
proof -
  have no_quote: "\<not> (\<exists>pre tok post. h = pre @ fn_prefix @ tok @ dquote # post)"
    if "dquote \<notin> set h" for h
  proof
    assume "\<exists>pre tok post. h = pre @ fn_prefix @ tok @ dquote # post"
    then obtain pre tok post where "h = pre @ fn_prefix @ tok @ dquote # post" by blast
    then have "set h = set (pre @ fn_prefix @ tok @ dquote # post)" by (rule arg_cong)
    then have "dquote \<in> set h" by simp
    with that show False by contradiction
  qed
  have a: "\<not> (\<exists>pre tok post. ''attachment; filename=report.dat'' = pre @ fn_prefix @ tok @ dquote # post)"
    by (rule no_quote) (simp add: dquote_def)
  have b: "\<not> (\<exists>pre tok post. ''inline'' = pre @ fn_prefix @ tok @ dquote # post)"
    by (rule no_quote) (simp add: dquote_def)
  note r1 = filename_fallback_without_token [of "''attachment; filename=report.dat''" "''abc123''", THEN mp, OF a]
  note r2 = filename_fallback_without_token [of "''inline''" "''abc123''", THEN mp, OF b]
  show ?thesis
    using r1 r2 by simp
qed

section \<open>Effects of a run\<close>

lemmas installer_defs =
  download_latest_bee_def install_binary_def fetch_asset_def make_executable_def

lemma download_latest_bee_frame:
  "download_latest_bee e w = (r, w') \<Longrightarrow>
   stdout w' = stdout w \<and> flag_writes w' = flag_writes w \<and> thread_args w' = thread_args w \<and>
   joins w' = joins w \<and> force_terminated w' = force_terminated w"
  by (auto simp: installer_defs Let_def
      split: sum.splits option.splits download_outcome.splits if_splits)

lemma download_latest_bee_exn:
  "download_latest_bee e w = (Inl x, w') \<Longrightarrow> x \<noteq> PopenError m"
  by (auto simp: installer_defs Let_def
      split: sum.splits option.splits download_outcome.splits if_splits)

lemma wait_for_bee_exn: "fst (wait_for_bee conn retry_count log) \<noteq> Inl (PopenError m)"
proof (induction conn retry_count log rule: wait_for_bee.induct)
  case (1 conn retry_count log)
  then show ?case
    by (subst wait_for_bee.simps) (auto split: conn_outcome.splits)
qed

lemma retrieve_failure:
  "retrieve s e w = (Inl x, w') \<Longrightarrow>
   x \<noteq> PopenError m \<and> stdout w' = stdout w \<and> flag_writes w' = flag_writes w \<and>
   thread_args w' = thread_args w \<and> joins w' = joins w \<and> force_terminated w' = force_terminated w"
  by (auto simp: retrieve_def save_response_def
      split: retrieval_outcome.splits option.splits)

lemma retrieve_success:
  "retrieve s e w = (Inr u, w') \<Longrightarrow>
   (\<exists>r. retrieval_response e = RetrResponse r \<and>
      stdout w' = stdout w @ [''Downloaded file: '' @ output_filename (content_disposition r) s]) \<and>
   flag_writes w' = flag_writes w @ [EvSet] \<and>
   thread_args w' = thread_args w \<and> joins w' = joins w \<and> force_terminated w' = force_terminated w"
  by (auto simp: retrieve_def save_response_def
      split: retrieval_outcome.splits option.splits)

lemma shutdown_effects:
  "stdout (shutdown e w) = stdout w \<and> flag_writes (shutdown e w) = flag_writes w @ [EvSet] \<and>
   thread_args (shutdown e w) = thread_args w \<and> joins (shutdown e w) = joins w @ [1] \<and>
   force_terminated (shutdown e w) = force_terminated w"
  by (simp add: shutdown_def thread_join_def Let_def)

lemma run_node_failure:
  "run_node s p e w = (Inl x, w') \<Longrightarrow>
   x \<noteq> PopenError m \<and> stdout w' = stdout w \<and> flag_writes w' = flag_writes w \<and>
   thread_args w' = Some p \<and> joins w' = joins w \<and> force_terminated w' = force_terminated w"
proof -
  assume a: "run_node s p e w = (Inl x, w')"
  obtain r log where wf: "wait_for_bee (connect e) 0 [] = (r, log)"
    by (cases "wait_for_bee (connect e) 0 []")
  show ?thesis
  proof (cases r)
    case (Inl y)
    with a wf have "x = y" and "w' = w\<lparr>thread_args := Some p, probe_log := log\<rparr>"
      by (simp_all add: run_node_def)
    moreover have "y \<noteq> PopenError m"
      using wait_for_bee_exn [of "connect e" 0 "[]" m] wf Inl by simp
    ultimately show ?thesis by simp
  next
    case (Inr u)
    with a wf have "retrieve s e (w\<lparr>thread_args := Some p, probe_log := log\<rparr>) = (Inl x, w')"
      by (auto simp: run_node_def split: prod.splits sum.splits)
    from retrieve_failure [OF this, of m] show ?thesis by simp
  qed
qed

lemma run_node_success:
  "run_node s p e w = (Inr u, w') \<Longrightarrow>
   (\<exists>r. retrieval_response e = RetrResponse r \<and>
      stdout w' = stdout w @ [''Downloaded file: '' @ output_filename (content_disposition r) s]) \<and>
   flag_writes w' = flag_writes w @ [EvSet, EvSet] \<and>
   thread_args w' = Some p \<and> joins w' = joins w @ [1] \<and> force_terminated w' = force_terminated w"
proof -
  assume a: "run_node s p e w = (Inr u, w')"
  then obtain log w1 where
    r: "retrieve s e (w\<lparr>thread_args := Some p, probe_log := log\<rparr>) = (Inr (), w1)"
    and w': "w' = shutdown e w1"
    by (auto simp: run_node_def split: prod.splits sum.splits)
  from retrieve_success [OF r] shutdown_effects [of e w1] w' show ?thesis
    by auto
qed

lemma query_bee_api_failure:
  "query_bee_api s e w = (Inl x, w') \<Longrightarrow>
   x \<noteq> PopenError m \<and> stdout w' = stdout w \<and> flag_writes w' = flag_writes w \<and>
   joins w' = joins w \<and> force_terminated w' = force_terminated w"
proof -
  assume a: "query_bee_api s e w = (Inl x, w')"
  obtain r w1 where d: "download_latest_bee e w = (r, w1)"
    by (cases "download_latest_bee e w")
  note f = download_latest_bee_frame [OF d]
  show ?thesis
  proof (cases r)
    case (Inl y)
    with a d have "x = y" and "w' = w1"
      by (simp_all add: query_bee_api_def)
    with f d Inl download_latest_bee_exn [of e w y w1 m] show ?thesis by simp
  next
    case (Inr p)
    show ?thesis
    proof (cases "bee_exists e")
      case True
      with a d Inr have "run_node s p e w1 = (Inl x, w')"
        by (simp add: query_bee_api_def)
      from run_node_failure [OF this, of m] f show ?thesis by simp
    next
      case False
      with a d Inr f show ?thesis
        by (auto simp: query_bee_api_def)
    qed
  qed
qed

lemma query_bee_api_success:
  "query_bee_api s e w = (Inr u, w') \<Longrightarrow>
   (\<exists>r. retrieval_response e = RetrResponse r \<and>
      stdout w' = stdout w @ [''Downloaded file: '' @ output_filename (content_disposition r) s]) \<and>
   flag_writes w' = flag_writes w @ [EvSet, EvSet] \<and>
   joins w' = joins w @ [1] \<and> force_terminated w' = force_terminated w"
proof -
  assume a: "query_bee_api s e w = (Inr u, w')"
  obtain r w1 where d: "download_latest_bee e w = (r, w1)"
    by (cases "download_latest_bee e w")
  note f = download_latest_bee_frame [OF d]
  from a d obtain p where "run_node s p e w1 = (Inr u, w')"
    by (auto simp: query_bee_api_def split: sum.splits if_splits)
  from run_node_success [OF this] f show ?thesis by simp
qed


lemma retrieve_files:
  "retrieve s e w = (Inr u, w') \<Longrightarrow> retrieval_response e = RetrResponse r \<Longrightarrow>
   files w' = files w @ [(output_filename (content_disposition r) s, body r)]"
  by (auto simp: retrieve_def save_response_def split: option.splits)

section \<open>The output file\<close>

text \<open>
  C5, amended. Take a retrieval that succeeds. When the Content-Disposition header of
  the response contains a quoted token \<^verbatim>\<open>filename="tok"\<close> whose text \<open>tok\<close> is not empty
  and has no double quote and no line feed in it, and \<^verbatim>\<open>filename="\<close> does not occur
  earlier in the header, the retrieval writes the body of the response to the file named
  \<open>tok\<close> and prints that name. When the first such token is empty, or the response has no
  Content-Disposition header, the body is written to the file named
  \<^verbatim>\<open>downloaded_file_{swarmhash}.dat\<close>.
\<close>

theorem output_file_from_first_token:
  "(retrieve swarmhash e w = (Inr u, w') \<and> retrieval_response e = RetrResponse r \<and>
    content_disposition r = Some h \<and>
    h = pre @ fn_prefix @ tok @ dquote # post \<and> tok \<noteq> [] \<and>
    dquote \<notin> set tok \<and> linefeed \<notin> set tok \<and>
    (\<forall>k<length pre. \<not> prefix fn_prefix (drop k h)) \<longrightarrow>
      files w' = files w @ [(tok, body r)] \<and>
      stdout w' = stdout w @ [''Downloaded file: '' @ tok]) \<and>
   (retrieve swarmhash e w = (Inr u, w') \<and> retrieval_response e = RetrResponse r \<and>
    content_disposition r = Some h \<and>
    h = pre @ fn_prefix @ dquote # post \<and>
    (\<forall>k<length pre. \<not> prefix fn_prefix (drop k h)) \<longrightarrow>
      files w' = files w @ [(''downloaded_file_'' @ swarmhash @ ''.dat'', body r)]) \<and>
   (retrieve swarmhash e w = (Inr u, w') \<and> retrieval_response e = RetrResponse r \<and>
    content_disposition r = None \<longrightarrow>
      files w' = files w @ [(''downloaded_file_'' @ swarmhash @ ''.dat'', body r)])"
proof (intro conjI impI)
  assume a: "retrieve swarmhash e w = (Inr u, w') \<and> retrieval_response e = RetrResponse r \<and>
    content_disposition r = Some h \<and>
    h = pre @ fn_prefix @ tok @ dquote # post \<and> tok \<noteq> [] \<and>
    dquote \<notin> set tok \<and> linefeed \<notin> set tok \<and>
    (\<forall>k<length pre. \<not> prefix fn_prefix (drop k h))"
  then have "output_filename (Some h) swarmhash = tok"
    by (intro output_filename_first_token) blast+
  with a have n: "output_filename (content_disposition r) swarmhash = tok"
    by metis
  from a have f: "files w' = files w @ [(output_filename (content_disposition r) swarmhash, body r)]"
    using retrieve_files by blast
  from f n show "files w' = files w @ [(tok, body r)]" by simp
  from a retrieve_success [of swarmhash e w u w'] n
  show "stdout w' = stdout w @ [''Downloaded file: '' @ tok]" by auto
next
  assume a: "retrieve swarmhash e w = (Inr u, w') \<and> retrieval_response e = RetrResponse r \<and>
    content_disposition r = Some h \<and>
    h = pre @ fn_prefix @ dquote # post \<and>
    (\<forall>k<length pre. \<not> prefix fn_prefix (drop k h))"
  then have "output_filename (Some h) swarmhash = ''downloaded_file_'' @ swarmhash @ ''.dat''"
    by (intro output_filename_empty_token) blast+
  with a have n: "output_filename (content_disposition r) swarmhash =
      ''downloaded_file_'' @ swarmhash @ ''.dat''"
    by metis
  from a have f: "files w' = files w @ [(output_filename (content_disposition r) swarmhash, body r)]"
    using retrieve_files by blast
  from f n show "files w' = files w @ [(''downloaded_file_'' @ swarmhash @ ''.dat'', body r)]"
    by simp
next
  assume a: "retrieve swarmhash e w = (Inr u, w') \<and> retrieval_response e = RetrResponse r \<and>
    content_disposition r = None"
  then have f: "files w' = files w @ [(output_filename (content_disposition r) swarmhash, body r)]"
    using retrieve_files by blast
  with a show "files w' = files w @ [(''downloaded_file_'' @ swarmhash @ ''.dat'', body r)]"
    by (simp add: output_filename_no_header)
qed

theorem output_file_from_first_token_witness:
  "files (snd (retrieve ''abc123'' env_report init_world)) = [(''report.dat'', ''hello'')] \<and>
   stdout (snd (retrieve ''abc123'' env_report init_world)) = [''Downloaded file: report.dat''] \<and>
   files (snd (retrieve ''abc123'' env_empty_token init_world)) =
     [(''downloaded_file_abc123.dat'', ''hello'')] \<and>
   files (snd (retrieve ''abc123'' env_ok init_world)) =
     [(''downloaded_file_abc123.dat'', ''hello'')]"
proof -
  let ?h = "''attachment; filename=\"report.dat\"''"
  let ?r = "\<lparr>content_disposition = Some ?h, body = ''hello'', stream_error = None\<rparr>"
  let ?he = "''attachment; filename=\"\"''"
  let ?re = "\<lparr>content_disposition = Some ?he, body = ''hello'', stream_error = None\<rparr>"
  let ?rx = "\<lparr>content_disposition = None, body = ''hello'', stream_error = None\<rparr>"
  have run: "retrieve ''abc123'' env_report init_world =
      (Inr (), snd (retrieve ''abc123'' env_report init_world))"
    by code_simp
  have run0: "retrieve ''abc123'' env_empty_token init_world =
      (Inr (), snd (retrieve ''abc123'' env_empty_token init_world))"
    by code_simp
  have runn: "retrieve ''abc123'' env_ok init_world =
      (Inr (), snd (retrieve ''abc123'' env_ok init_world))"
    by code_simp
  have resp: "retrieval_response env_report = RetrResponse ?r"
    by (simp add: env_report_def)
  have resp0: "retrieval_response env_empty_token = RetrResponse ?re"
    by (simp add: env_empty_token_def)
  have respn: "retrieval_response env_ok = RetrResponse ?rx"
    by (simp add: env_ok_def)
  have h: "?h = ''attachment; '' @ fn_prefix @ ''report.dat'' @ dquote # []"
    by (simp add: fn_prefix_def dquote_def)
  have h0: "?he = ''attachment; '' @ fn_prefix @ dquote # []"
    by (simp add: fn_prefix_def dquote_def)
  have t: "''report.dat'' \<noteq> [] \<and> dquote \<notin> set ''report.dat'' \<and> linefeed \<notin> set ''report.dat''"
    by (simp add: dquote_def linefeed_def)
  have "list_all (\<lambda>k. \<not> prefix fn_prefix (drop k ?h)) [0..<length ''attachment; '']"
    by code_simp
  then have n: "\<forall>k<length ''attachment; ''. \<not> prefix fn_prefix (drop k ?h)"
    unfolding list_all_iff by (metis atLeast_upt lessThan_iff set_upt)
  have "list_all (\<lambda>k. \<not> prefix fn_prefix (drop k ?he)) [0..<length ''attachment; '']"
    by code_simp
  then have n0: "\<forall>k<length ''attachment; ''. \<not> prefix fn_prefix (drop k ?he)"
    unfolding list_all_iff by (metis atLeast_upt lessThan_iff set_upt)
  have i: "files init_world = [] \<and> stdout init_world = []"
    by (simp add: init_world_def)
  note thm1 = output_file_from_first_token [where swarmhash = "''abc123''" and e = env_report
      and w = init_world and u = "()" and w' = "snd (retrieve ''abc123'' env_report init_world)"
      and r = ?r and h = ?h and pre = "''attachment; ''" and tok = "''report.dat''" and post = "[]",
      THEN conjunct1, THEN mp]
  have c1: "content_disposition ?r = Some ?h" by simp
  have hyp1: "retrieve ''abc123'' env_report init_world =
      (Inr (), snd (retrieve ''abc123'' env_report init_world)) \<and>
    retrieval_response env_report = RetrResponse ?r \<and> content_disposition ?r = Some ?h \<and>
    ?h = ''attachment; '' @ fn_prefix @ ''report.dat'' @ dquote # [] \<and> ''report.dat'' \<noteq> [] \<and>
    dquote \<notin> set ''report.dat'' \<and> linefeed \<notin> set ''report.dat'' \<and>
    (\<forall>k<length ''attachment; ''. \<not> prefix fn_prefix (drop k ?h))"
    using run resp c1 h t n by blast
  have r1: "files (snd (retrieve ''abc123'' env_report init_world)) = [(''report.dat'', ''hello'')] \<and>
     stdout (snd (retrieve ''abc123'' env_report init_world)) = [''Downloaded file: report.dat'']"
    using thm1 [OF hyp1] i by simp
  note thm2 = output_file_from_first_token [where swarmhash = "''abc123''" and e = env_empty_token
      and w = init_world and u = "()" and w' = "snd (retrieve ''abc123'' env_empty_token init_world)"
      and r = ?re and h = ?he and pre = "''attachment; ''" and tok = "[]" and post = "[]",
      THEN conjunct2, THEN conjunct1, THEN mp]
  have c2: "content_disposition ?re = Some ?he" by simp
  have hyp2: "retrieve ''abc123'' env_empty_token init_world =
      (Inr (), snd (retrieve ''abc123'' env_empty_token init_world)) \<and>
    retrieval_response env_empty_token = RetrResponse ?re \<and> content_disposition ?re = Some ?he \<and>
    ?he = ''attachment; '' @ fn_prefix @ dquote # [] \<and>
    (\<forall>k<length ''attachment; ''. \<not> prefix fn_prefix (drop k ?he))"
    using run0 resp0 c2 h0 n0 by blast
  have r2: "files (snd (retrieve ''abc123'' env_empty_token init_world)) =
     [(''downloaded_file_abc123.dat'', ''hello'')]"
    using thm2 [OF hyp2] i by simp
  note thm3 = output_file_from_first_token [where swarmhash = "''abc123''" and e = env_ok
      and w = init_world and u = "()" and w' = "snd (retrieve ''abc123'' env_ok init_world)"
      and r = ?rx and h = "[]" and pre = "[]" and tok = "[]" and post = "[]",
      THEN conjunct2, THEN conjunct2, THEN mp]
  have c3: "content_disposition ?rx = None" by simp
  have hyp3: "retrieve ''abc123'' env_ok init_world =
      (Inr (), snd (retrieve ''abc123'' env_ok init_world)) \<and>
    retrieval_response env_ok = RetrResponse ?rx \<and> content_disposition ?rx = None"
    using runn respn c3 by blast
  have r3: "files (snd (retrieve ''abc123'' env_ok init_world)) =
     [(''downloaded_file_abc123.dat'', ''hello'')]"
    using thm3 [OF hyp3] i by simp
  from r1 r2 r3 show ?thesis by blast
qed

text \<open>
  C5 as stated fails for an empty token: the header \<^verbatim>\<open>attachment; filename=""\<close> has a
  quoted filename token, yet the file that the run writes is not named by it (the empty
  string) but by the fallback name, because of the test \<^verbatim>\<open>if not filename\<close> of line 159.
\<close>

theorem empty_token_counterexample:
  "''attachment; filename=\"\"'' = ''attachment; '' @ fn_prefix @ [] @ dquote # [] \<and>
   output_filename (Some ''attachment; filename=\"\"'') ''abc123'' = ''downloaded_file_abc123.dat'' \<and>
   output_filename (Some ''attachment; filename=\"\"'') ''abc123'' \<noteq> [] \<and>
   fst (query_bee_api ''abc123'' env_empty_token init_world) = Inr () \<and>
   files (snd (query_bee_api ''abc123'' env_empty_token init_world)) =
     [(''/home/u/.local/bin/bee-linux-amd64'', ''ELF''), (''downloaded_file_abc123.dat'', ''hello'')]"
  by code_simp

section \<open>The stop flag\<close>

lemma query_bee_api_flag_writes:
  "flag_writes (snd (query_bee_api s e init_world)) =
     (case fst (query_bee_api s e init_world) of Inl x \<Rightarrow> [] | Inr u \<Rightarrow> [EvSet, EvSet])"
proof (cases "query_bee_api s e init_world")
  case (Pair r w')
  show ?thesis
  proof (cases r)
    case (Inl x)
    with Pair query_bee_api_failure [of s e init_world x w'] show ?thesis
      by (simp add: init_world_def)
  next
    case (Inr u)
    with Pair query_bee_api_success [of s e init_world u w'] show ?thesis
      by (simp add: init_world_def)
  qed
qed

lemma observe_set_flag:
  "b \<Longrightarrow> set ws \<subseteq> {EvSet} \<Longrightarrow> x \<in> set (observe b ws sched) \<Longrightarrow> x"
  by (induction b ws sched rule: observe.induct) auto

lemma observe_monotone:
  "set ws \<subseteq> {EvSet} \<Longrightarrow> i \<le> j \<Longrightarrow> j < length (observe b ws sched) \<Longrightarrow>
   observe b ws sched ! i \<Longrightarrow> observe b ws sched ! j"
proof (induction b ws sched arbitrary: i j rule: observe.induct)
  case (2 b ws ts)
  show ?case
  proof (cases i)
    case 0
    with "2.prems" have b by simp
    moreover have "observe b ws (Poll # ts) ! j \<in> set (observe b ws (Poll # ts))"
      using "2.prems"(3) by (rule nth_mem)
    ultimately show ?thesis
      using "2.prems"(1) observe_set_flag [of b ws _ "Poll # ts"] by blast
  next
    case (Suc i')
    with "2.prems" obtain j' where j: "j = Suc j'" and le: "i' \<le> j'"
      by (cases j) simp_all
    from "2.prems" Suc j have "j' < length (observe b ws ts)" and "observe b ws ts ! i'"
      by simp_all
    with "2.IH" [OF "2.prems"(1) le] have "observe b ws ts ! j'" by blast
    with j show ?thesis by simp
  qed
qed simp_all

lemma observe_unset: "x \<in> set (observe False [] sched) \<Longrightarrow> \<not> x"
  by (induction "False" "[] :: event_op list" sched rule: observe.induct) auto

lemma poll_loop_unset: "(\<And>x. x \<in> set polls \<Longrightarrow> \<not> x) \<Longrightarrow> \<not> poll_loop polls"
  by (induction polls) auto

text \<open>
  C8. The stop flag starts unset, and every write that a run makes to it is a
  \<^verbatim>\<open>set()\<close>: nothing clears it. Hence, however the polls of the supervision thread
  are interleaved with the writes of the main thread, once a poll has seen the flag set,
  every later poll sees it set too.
\<close>

theorem stop_flag_monotone:
  "\<not> flag_after [] \<and>
   set (flag_writes (snd (query_bee_api s e init_world))) \<subseteq> {EvSet} \<and>
   (i \<le> j \<and> j < length (observe False (flag_writes (snd (query_bee_api s e init_world))) sched) \<and>
    observe False (flag_writes (snd (query_bee_api s e init_world))) sched ! i \<longrightarrow>
      observe False (flag_writes (snd (query_bee_api s e init_world))) sched ! j)"
proof -
  let ?ws = "flag_writes (snd (query_bee_api s e init_world))"
  have ws: "set ?ws \<subseteq> {EvSet}"
    by (auto simp: query_bee_api_flag_writes split: sum.splits)
  then have "observe False ?ws sched ! j"
    if "i \<le> j" and "j < length (observe False ?ws sched)" and "observe False ?ws sched ! i"
    using that by (rule observe_monotone)
  with ws show ?thesis
    by (simp add: flag_after_def)
qed

theorem stop_flag_monotone_witness:
  "observe False (flag_writes (snd (query_bee_api ''abc123'' env_ok init_world)))
     [Poll, MainStep, Poll, MainStep, Poll] = [False, True, True] \<and>
   observe False (flag_writes (snd (query_bee_api ''abc123'' env_ok init_world)))
     [Poll, MainStep, Poll, MainStep, Poll] ! 2"
proof -
  have obs: "observe False (flag_writes (snd (query_bee_api ''abc123'' env_ok init_world)))
     [Poll, MainStep, Poll, MainStep, Poll] = [False, True, True]"
    by code_simp
  have "(1::nat) \<le> 2 \<and> 2 < length [False, True, True] \<and> [False, True, True] ! 1"
    by simp
  with stop_flag_monotone [where i = 1 and j = 2 and s = "''abc123''" and e = env_ok
      and sched = "[Poll, MainStep, Poll, MainStep, Poll]"] obs
  show ?thesis by simp
qed

section \<open>The retrieval step and the stop flag\<close>

text \<open>
  C1 fails on the code. When the gateway answers 404, the handler of lines 171 and 172
  raises \<^verbatim>\<open>RuntimeError\<close>, and the \<^verbatim>\<open>stop_flag.set()\<close> of line 176 after the
  \<^verbatim>\<open>try\<close> statement is never reached: \<^verbatim>\<open>query_bee_api\<close> raises with no write to the
  flag at all, the flag is unset, and under every schedule the supervision thread is
  still polling. On the successful run the flag is written twice (lines 169 and 176) and
  goes from unset to set once.
\<close>

theorem retrieval_failure_leaves_flag_unset:
  "fst (query_bee_api ''abc123'' env_retrieval_fails init_world) =
     Inl (RuntimeError ''Failed to download file using Bee API: 404 Client Error'') \<and>
   flag_writes (snd (query_bee_api ''abc123'' env_retrieval_fails init_world)) = [] \<and>
   \<not> flag_after (flag_writes (snd (query_bee_api ''abc123'' env_retrieval_fails init_world))) \<and>
   transitions False (flag_writes (snd (query_bee_api ''abc123'' env_retrieval_fails init_world))) = 0 \<and>
   (\<forall>sched. bee_thread ''abc123'' env_retrieval_fails sched =
      Some (ThreadPolling, [PopenCall (command ''/home/u/.local/bin/bee-linux-amd64'')])) \<and>
   flag_writes (snd (query_bee_api ''abc123'' env_ok init_world)) = [EvSet, EvSet] \<and>
   transitions False (flag_writes (snd (query_bee_api ''abc123'' env_ok init_world))) = 1"
proof -
  have ok: "flag_writes (snd (query_bee_api ''abc123'' env_ok init_world)) = [EvSet, EvSet]"
    by code_simp
  have r: "fst (query_bee_api ''abc123'' env_retrieval_fails init_world) =
     Inl (RuntimeError ''Failed to download file using Bee API: 404 Client Error'')"
    by code_simp
  have w: "flag_writes (snd (query_bee_api ''abc123'' env_retrieval_fails init_world)) = []"
    by code_simp
  have t: "thread_args (snd (query_bee_api ''abc123'' env_retrieval_fails init_world)) =
      Some ''/home/u/.local/bin/bee-linux-amd64''"
    by code_simp
  have s: "spawn_error env_retrieval_fails = None"
    by code_simp
  have "bee_thread ''abc123'' env_retrieval_fails sched =
      Some (ThreadPolling, [PopenCall (command ''/home/u/.local/bin/bee-linux-amd64'')])" for sched
    using poll_loop_unset [of "observe False [] sched"] observe_unset [of _ sched]
    by (auto simp: bee_thread_def Let_def w t s start_bee_node_def)
  with r w ok show ?thesis
    by (simp add: flag_after_def)
qed


section \<open>The join\<close>

lemma never_force_terminated: "\<not> force_terminated (snd (query_bee_api s e init_world))"
proof (cases "query_bee_api s e init_world")
  case (Pair r w')
  show ?thesis
  proof (cases r)
    case (Inl x)
    with Pair query_bee_api_failure [of s e init_world x w'] show ?thesis
      by (simp add: init_world_def)
  next
    case (Inr u)
    with Pair query_bee_api_success [of s e init_world u w'] show ?thesis
      by (simp add: init_world_def)
  qed
qed

text \<open>
  C3 fails on the code. The join is made with a timeout of one second, but
  \<^verbatim>\<open>Thread.join\<close> returns \<^verbatim>\<open>None\<close>, so the test \<^verbatim>\<open>bee_process is not None\<close> of line 180
  is false even when the thread is still alive after the join: the node process is not
  force-terminated.
\<close>

theorem hanging_node_not_terminated:
  "alive_after_join env_node_hangs \<and>
   fst (query_bee_api ''abc123'' env_node_hangs init_world) = Inr () \<and>
   flag_writes (snd (query_bee_api ''abc123'' env_node_hangs init_world)) = [EvSet, EvSet] \<and>
   joins (snd (query_bee_api ''abc123'' env_node_hangs init_world)) = [1] \<and>
   \<not> force_terminated (snd (query_bee_api ''abc123'' env_node_hangs init_world))"
  by code_simp

section \<open>A failing spawn\<close>

lemma install_binary_spawn:
  "install_binary (e\<lparr>spawn_error := x\<rparr>) u w = install_binary e u w"
  by (simp add: install_binary_def fetch_asset_def make_executable_def
      split: option.splits download_outcome.splits)

lemma download_latest_bee_spawn:
  "download_latest_bee (e\<lparr>spawn_error := x\<rparr>) w = download_latest_bee e w"
  by (simp add: download_latest_bee_def install_binary_spawn Let_def
      split: sum.splits option.splits)

lemma retrieve_spawn:
  "retrieve s (e\<lparr>spawn_error := x\<rparr>) w = retrieve s e w"
  by (simp add: retrieve_def save_response_def
      split: retrieval_outcome.splits option.splits)

lemma shutdown_spawn:
  "shutdown (e\<lparr>spawn_error := x\<rparr>) w = shutdown e w"
  by (simp add: shutdown_def thread_join_def)

lemma run_node_spawn:
  "run_node s p (e\<lparr>spawn_error := x\<rparr>) w = run_node s p e w"
  by (simp add: run_node_def retrieve_spawn shutdown_spawn
      split: prod.splits sum.splits)

lemma spawn_error_irrelevant:
  "query_bee_api s (e\<lparr>spawn_error := x\<rparr>) w = query_bee_api s e w"
  by (simp add: query_bee_api_def download_latest_bee_spawn run_node_spawn
      split: prod.splits sum.splits)

text \<open>
  C4, amended. When the child process cannot be spawned, \<^verbatim>\<open>Popen\<close> is called once and
  its error ends the background thread before the supervision loop polls the flag; no
  termination request is sent and the spawn is not retried. The error does not reach
  \<^verbatim>\<open>query_bee_api\<close>: what \<^verbatim>\<open>query_bee_api\<close> returns or raises is the same as when the
  spawn succeeds, and is never the spawn error.
\<close>

theorem spawn_error_stays_in_thread:
  "spawn_error e = Some m \<longrightarrow>
     start_bee_node p (spawn_error e) polls = (ThreadRaised (PopenError m), [PopenCall (command p)]) \<and>
     fst (query_bee_api s e w) \<noteq> Inl (PopenError m') \<and>
     query_bee_api s e w = query_bee_api s (e\<lparr>spawn_error := None\<rparr>) w \<and>
     (thread_args (snd (query_bee_api s e init_world)) = Some p \<longrightarrow>
        bee_thread s e sched = Some (ThreadRaised (PopenError m), [PopenCall (command p)]))"
proof
  assume a: "spawn_error e = Some m"
  have 1: "start_bee_node p (spawn_error e) polls =
      (ThreadRaised (PopenError m), [PopenCall (command p)])" for p polls
    using a by (simp add: start_bee_node_def)
  have 2: "fst (query_bee_api s e w) \<noteq> Inl (PopenError m')"
    using query_bee_api_failure [of s e w "PopenError m'" "snd (query_bee_api s e w)" m']
    by (cases "query_bee_api s e w") auto
  have 3: "query_bee_api s e w = query_bee_api s (e\<lparr>spawn_error := None\<rparr>) w"
    by (simp add: spawn_error_irrelevant)
  have 4: "bee_thread s e sched = Some (ThreadRaised (PopenError m), [PopenCall (command p)])"
    if "thread_args (snd (query_bee_api s e init_world)) = Some p"
    using that 1 by (simp add: bee_thread_def Let_def)
  from 1 2 3 4 show "start_bee_node p (spawn_error e) polls =
       (ThreadRaised (PopenError m), [PopenCall (command p)]) \<and>
     fst (query_bee_api s e w) \<noteq> Inl (PopenError m') \<and>
     query_bee_api s e w = query_bee_api s (e\<lparr>spawn_error := None\<rparr>) w \<and>
     (thread_args (snd (query_bee_api s e init_world)) = Some p \<longrightarrow>
        bee_thread s e sched = Some (ThreadRaised (PopenError m), [PopenCall (command p)]))"
    by blast
qed

theorem spawn_error_stays_in_thread_witness:
  "spawn_error env_spawn_fails = Some ''[Errno 8] Exec format error'' \<and>
   thread_args (snd (query_bee_api ''abc123'' env_spawn_fails init_world)) =
     Some ''/home/u/.local/bin/bee-linux-amd64'' \<and>
   bee_thread ''abc123'' env_spawn_fails [Poll, Poll] =
     Some (ThreadRaised (PopenError ''[Errno 8] Exec format error''),
           [PopenCall (command ''/home/u/.local/bin/bee-linux-amd64'')]) \<and>
   fst (query_bee_api ''abc123'' env_spawn_fails init_world) \<noteq>
     Inl (PopenError ''[Errno 8] Exec format error'')"
proof -
  have a: "spawn_error env_spawn_fails = Some ''[Errno 8] Exec format error''"
    by (simp add: env_spawn_fails_def)
  have t: "thread_args (snd (query_bee_api ''abc123'' env_spawn_fails init_world)) =
     Some ''/home/u/.local/bin/bee-linux-amd64''"
    by code_simp
  note r = spawn_error_stays_in_thread [where e = env_spawn_fails
      and m = "''[Errno 8] Exec format error''" and m' = "''[Errno 8] Exec format error''"
      and p = "''/home/u/.local/bin/bee-linux-amd64''" and s = "''abc123''" and w = init_world
      and sched = "[Poll, Poll]" and polls = "[]", THEN mp, OF a]
  from r a t show ?thesis by blast
qed

text \<open>
  C4 as stated fails: with a binary that cannot be executed and nothing listening on the
  port, \<^verbatim>\<open>query_bee_api\<close> does not raise the spawn error; it makes its 30 connection
  attempts and raises the timeout error of the readiness probe.
\<close>

theorem spawn_error_counterexample:
  "spawn_error env_spawn_fails = Some ''[Errno 8] Exec format error'' \<and>
   fst (query_bee_api ''abc123'' env_spawn_fails init_world) =
     Inl (RuntimeError ''Bee node failed to start after 30 retries.'') \<and>
   attempts (probe_log (snd (query_bee_api ''abc123'' env_spawn_fails init_world))) = 30"
  by code_simp

section \<open>The command line\<close>

text \<open>
  What the command line does with the outcome of \<^verbatim>\<open>query_bee_api\<close>: a \<^verbatim>\<open>RuntimeError\<close>
  with message \<open>m\<close> is printed as the single line \<^verbatim>\<open>Error: m\<close> with exit status 0; after
  a return the only line printed is \<^verbatim>\<open>Downloaded file: \<close> followed by the output
  filename, with exit status 0.
\<close>

lemma cli_reports_runtime_errors:
  "(fst (query_bee_api s e init_world) = Inl (RuntimeError m) \<longrightarrow>
      main s e = ([''Error: '' @ m], 0)) \<and>
   (fst (query_bee_api s e init_world) = Inr () \<longrightarrow>
      (\<exists>r. retrieval_response e = RetrResponse r \<and>
         main s e = ([''Downloaded file: '' @ output_filename (content_disposition r) s], 0)))"
proof (intro conjI impI)
  assume a: "fst (query_bee_api s e init_world) = Inl (RuntimeError m)"
  then obtain w' where q: "query_bee_api s e init_world = (Inl (RuntimeError m), w')"
    by (cases "query_bee_api s e init_world") simp
  from query_bee_api_failure [OF q] have "stdout w' = []"
    by (simp add: init_world_def)
  with q show "main s e = ([''Error: '' @ m], 0)"
    by (simp add: main_def)
next
  assume a: "fst (query_bee_api s e init_world) = Inr ()"
  then obtain w' where q: "query_bee_api s e init_world = (Inr (), w')"
    by (cases "query_bee_api s e init_world") simp
  from query_bee_api_success [OF q] obtain r where
    "retrieval_response e = RetrResponse r"
    "stdout w' = [''Downloaded file: '' @ output_filename (content_disposition r) s]"
    by (auto simp: init_world_def)
  with q show "\<exists>r. retrieval_response e = RetrResponse r \<and>
         main s e = ([''Downloaded file: '' @ output_filename (content_disposition r) s], 0)"
    by (simp add: main_def)
qed

text \<open>
  C7 fails on the code. A failure of the installer or of the retrieval that is raised
  as \<^verbatim>\<open>OSError\<close> outside the handlers of lines 93 to 96 and 171 reaches the command line
  as it is, passes the handler of line 191, and ends the script with a traceback and exit
  status 1, with no \<^verbatim>\<open>Error:\<close> line: so for the \<^verbatim>\<open>os.makedirs\<close> of line 77, the
  \<^verbatim>\<open>os.chmod\<close> of line 100 and the \<^verbatim>\<open>open\<close> of line 162. The same kind of failure
  inside the \<^verbatim>\<open>try\<close> of line 83 is turned into a \<^verbatim>\<open>RuntimeError\<close> by the handler of
  line 95 and is printed as \<^verbatim>\<open>Error: Failed to create directory structure: ...\<close> with
  exit status 0.
\<close>

theorem oserror_not_reported:
  "fst (query_bee_api ''abc123'' env_makedirs_fails init_world) =
     Inl (OSError ''[Errno 13] Permission denied'') \<and>
   main ''abc123'' env_makedirs_fails = ([], 1) \<and>
   fst (query_bee_api ''abc123'' env_chmod_fails init_world) =
     Inl (OSError ''[Errno 1] Operation not permitted'') \<and>
   main ''abc123'' env_chmod_fails = ([], 1) \<and>
   fst (query_bee_api ''abc123'' env_open_fails init_world) =
     Inl (OSError ''[Errno 13] Permission denied'') \<and>
   main ''abc123'' env_open_fails = ([], 1) \<and>
   main ''abc123'' env_asset_dir_fails =
     ([''Error: Failed to create directory structure: [Errno 13] Permission denied''], 0)"
  by code_simp

end
